theory Spec2Isabelle
  imports Complex_Main
begin

section \<open>Data model\<close>

text \<open>
  The program builds one pandas DataFrame from the module-level dictionary
  \<^verbatim>\<open>sensor_data\<close> and hands it to five rules. A frame is modelled as the list of
  its rows, in index order. Every cell may hold Python's \<^verbatim>\<open>None\<close>: pandas
  stores it as NaN in the two numeric columns and as a null object in the two string
  columns, and \<^verbatim>\<open>isnull\<close> reports both. \<open>None\<close> stands for that null cell.
  The numeric columns are float64 columns; their values are modelled as exact real
  numbers, so IEEE rounding is not part of the model.
\<close>

record reading =
  sensor_id :: "string option"
  temperature :: "real option"
  humidity :: "real option"
  timestamp :: "string option"

type_synonym dataframe = "reading list"

text \<open>The dictionary of columns that \<^verbatim>\<open>pd.DataFrame\<close> receives.\<close>

record columns =
  c_sensor_id :: "string option list"
  c_temperature :: "real option list"
  c_humidity :: "real option list"
  c_timestamp :: "string option list"

datatype py_error = ValueError | ZeroDivisionError | UnicodeEncodeError

definition sensor_data :: columns where
  "sensor_data =
     \<lparr> c_sensor_id = [Some ''S001'', Some ''S002'', Some ''S003'', Some ''S004'',
                      Some ''S005'', Some ''S006'', Some ''S007'', Some ''S008''],
       c_temperature = [Some 25.5, Some 28.3, None, Some 150.0, Some 22.1, Some (- 50.0),
                        Some 30.2, Some 26.8],
       c_humidity = [Some 60, Some 65, Some 70, Some 55, None, Some 80, Some 62, Some 68],
       c_timestamp = [Some ''2025-01-15 10:00'', Some ''2025-01-15 10:05'',
                      Some ''2025-01-15 10:10'', Some ''2025-01-15 10:15'',
                      Some ''2025-01-15 10:20'', Some ''2025-01-15 10:25'',
                      Some ''2025-01-15 10:30'', Some ''2025-01-15 10:35''] \<rparr>"

fun rows :: "string option list \<Rightarrow> real option list \<Rightarrow> real option list \<Rightarrow>
    string option list \<Rightarrow> dataframe" where
  "rows (i # is) (t # ts) (h # hs) (s # ss) =
     \<lparr> sensor_id = i, temperature = t, humidity = h, timestamp = s \<rparr> # rows is ts hs ss"
| "rows _ _ _ _ = []"

text \<open>\<^verbatim>\<open>pd.DataFrame(dict)\<close> raises ValueError when the columns differ in length.\<close>

definition DataFrame :: "columns \<Rightarrow> py_error + dataframe" where
  "DataFrame c =
     (let n = length (c_sensor_id c) in
      if length (c_temperature c) = n \<and> length (c_humidity c) = n \<and> length (c_timestamp c) = n
      then Inr (rows (c_sensor_id c) (c_temperature c) (c_humidity c) (c_timestamp c))
      else Inl ValueError)"

definition load_data :: "py_error + dataframe" where
  "load_data = DataFrame sensor_data"

section \<open>Comparisons and arithmetic on cells that may be NaN\<close>

text \<open>A comparison with NaN on either side is false; arithmetic on NaN gives NaN.\<close>

definition nan_lt :: "real option \<Rightarrow> real option \<Rightarrow> bool" where
  "nan_lt a b = (case a of None \<Rightarrow> False | Some x \<Rightarrow> (case b of None \<Rightarrow> False | Some y \<Rightarrow> x < y))"

definition nan_gt :: "real option \<Rightarrow> real option \<Rightarrow> bool" where
  "nan_gt a b = (case a of None \<Rightarrow> False | Some x \<Rightarrow> (case b of None \<Rightarrow> False | Some y \<Rightarrow> x > y))"

definition nan_sub :: "real option \<Rightarrow> real option \<Rightarrow> real option" where
  "nan_sub a b = (case a of None \<Rightarrow> None | Some x \<Rightarrow> (case b of None \<Rightarrow> None | Some y \<Rightarrow> Some (x - y)))"

definition nan_mul :: "real option \<Rightarrow> real option \<Rightarrow> real option" where
  "nan_mul a b = (case a of None \<Rightarrow> None | Some x \<Rightarrow> (case b of None \<Rightarrow> None | Some y \<Rightarrow> Some (x * y)))"

definition nan_abs :: "real option \<Rightarrow> real option" where
  "nan_abs a = (case a of None \<Rightarrow> None | Some x \<Rightarrow> Some \<bar>x\<bar>)"

section \<open>The five rules\<close>

subsection \<open>Test 1: missing values\<close>

text \<open>
  \<^verbatim>\<open>df.isnull().sum()\<close> is the number of null cells of every column, all four of
  them; \<^verbatim>\<open>missing.sum()\<close> adds the four counts.
\<close>

definition missing :: "dataframe \<Rightarrow> nat list" where
  "missing df =
     [length (filter (\<lambda>r. sensor_id r = None) df),
      length (filter (\<lambda>r. temperature r = None) df),
      length (filter (\<lambda>r. humidity r = None) df),
      length (filter (\<lambda>r. timestamp r = None) df)]"

text \<open>\<^verbatim>\<open>df.isnull().any(axis=1)\<close>: the row has a null cell in some column.\<close>

definition any_null :: "reading \<Rightarrow> bool" where
  "any_null r \<longleftrightarrow>
     sensor_id r = None \<or> temperature r = None \<or> humidity r = None \<or> timestamp r = None"

definition missing_sensors :: "dataframe \<Rightarrow> string option list" where
  "missing_sensors df = map sensor_id (filter any_null df)"

definition test_missing_values :: "dataframe \<Rightarrow> bool" where
  "test_missing_values df = (if sum_list (missing df) > 0 then False else True)"

subsection \<open>Test 2 and 3: ranges\<close>

definition invalid_temperature :: "dataframe \<Rightarrow> dataframe" where
  "invalid_temperature df =
     filter (\<lambda>r. nan_lt (temperature r) (Some 0) \<or> nan_gt (temperature r) (Some 50)) df"

definition test_temperature_range :: "dataframe \<Rightarrow> bool" where
  "test_temperature_range df = (if length (invalid_temperature df) > 0 then False else True)"

definition invalid_humidity :: "dataframe \<Rightarrow> dataframe" where
  "invalid_humidity df =
     filter (\<lambda>r. nan_lt (humidity r) (Some 0) \<or> nan_gt (humidity r) (Some 100)) df"

definition test_humidity_range :: "dataframe \<Rightarrow> bool" where
  "test_humidity_range df = (if length (invalid_humidity df) > 0 then False else True)"

subsection \<open>Test 4: duplicate sensor identifiers\<close>

text \<open>
  \<^verbatim>\<open>df.duplicated(subset=['sensor_id'], keep=False)\<close> marks every row whose
  identifier is also the identifier of another row; two null identifiers count as
  equal.
\<close>

definition duplicated :: "dataframe \<Rightarrow> bool list" where
  "duplicated df = map (\<lambda>r. 1 < count_list (map sensor_id df) (sensor_id r)) df"

definition duplicates :: "dataframe \<Rightarrow> dataframe" where
  "duplicates df = map fst (filter snd (zip df (duplicated df)))"

definition test_duplicates :: "dataframe \<Rightarrow> bool" where
  "test_duplicates df = (if length (duplicates df) > 0 then False else True)"

subsection \<open>Test 5: outliers of the temperature column\<close>

text \<open>\<^verbatim>\<open>Series.dropna()\<close> keeps the cells that are not null, in order.\<close>

fun dropna :: "real option list \<Rightarrow> real list" where
  "dropna [] = []"
| "dropna (None # xs) = dropna xs"
| "dropna (Some x # xs) = x # dropna xs"

text \<open>
  \<^verbatim>\<open>np.mean\<close> of an empty series is NaN (a warning, no exception).
  \<^verbatim>\<open>np.std\<close> hands its own default \<^verbatim>\<open>ddof=0\<close> to the series, so the sum of
  squared deviations is divided by the number of values: the population standard
  deviation. Both are library functions that work in float64; the three definitions
  below are their exact-arithmetic reading, without rounding and without overflow.
  They give the program's answer wherever the two sides of the comparison
  \<^verbatim>\<open>np.abs(df['temperature'] - mean) > (2 * std)\<close> differ by more than the rounding
  error, as they do on the program's own data, and may differ from it elsewhere.
\<close>

definition np_mean :: "real list \<Rightarrow> real option" where
  "np_mean xs = (if xs = [] then None else Some (sum_list xs / real (length xs)))"

definition np_std :: "real list \<Rightarrow> real option" where
  "np_std xs =
     (case np_mean xs of
        None \<Rightarrow> None
      | Some m \<Rightarrow> Some (sqrt (sum_list (map (\<lambda>x. (x - m)\<^sup>2) xs) / real (length xs))))"

definition outliers :: "dataframe \<Rightarrow> dataframe" where
  "outliers df =
     (let temp_clean = dropna (map temperature df);
          mean = np_mean temp_clean;
          std = np_std temp_clean
      in filter (\<lambda>r. nan_gt (nan_abs (nan_sub (temperature r) mean)) (nan_mul (Some 2) std)) df)"

definition test_outliers :: "dataframe \<Rightarrow> bool" where
  "test_outliers df = (if length (outliers df) > 0 then False else True)"

section \<open>The report\<close>

datatype quality = GOOD | NEEDS_IMPROVEMENT | POOR

text \<open>What \<^verbatim>\<open>generate_report\<close> prints: the four numbers and the verdict.\<close>

record report =
  total_tests :: int
  passed :: int
  failed :: int
  success_rate :: real
  quality :: quality

text \<open>
  \<^verbatim>\<open>sum(results)\<close> adds the booleans as 0 and 1. The division
  \<^verbatim>\<open>passed / total_tests\<close> has no guard: Python raises ZeroDivisionError when the
  list is empty, before anything of the report body is printed.
\<close>

definition generate_report :: "bool list \<Rightarrow> py_error + report" where
  "generate_report results =
     (let total_tests = int (length results);
          passed = sum_list (map of_bool results);
          failed = total_tests - passed
      in if total_tests = 0 then Inl ZeroDivisionError
         else
           let success_rate = (real_of_int passed / real_of_int total_tests) * 100
           in Inr \<lparr> total_tests = total_tests, passed = passed, failed = failed,
                    success_rate = success_rate,
                    quality = (if success_rate \<ge> 80 then GOOD
                               else if success_rate \<ge> 60 then NEEDS_IMPROVEMENT
                               else POOR) \<rparr>)"

section \<open>The main program\<close>

text \<open>
  The state of \<^verbatim>\<open>main\<close>: the frame bound to \<^verbatim>\<open>df\<close> and the list
  \<^verbatim>\<open>results\<close>. A rule reads the frame; none of the five bodies assigns into it or
  calls an in-place method, so a step changes \<open>results\<close> only.
\<close>

record state =
  frame :: dataframe
  results :: "bool list"

definition append_result :: "(dataframe \<Rightarrow> bool) \<Rightarrow> state \<Rightarrow> state" where
  "append_result rule s = s\<lparr> results := results s @ [rule (frame s)] \<rparr>"

definition run_rules :: "dataframe \<Rightarrow> state" where
  "run_rules df =
     (let s0 = \<lparr> frame = df, results = [] \<rparr>;
          s1 = append_result test_missing_values s0;
          s2 = append_result test_temperature_range s1;
          s3 = append_result test_humidity_range s2;
          s4 = append_result test_duplicates s3;
          s5 = append_result test_outliers s4
      in s5)"

text \<open>
  \<open>main_on\<close> and \<open>main\<close> are the values the program computes, with its printing left
  out; the program with its printing is \<open>main_io\<close> below.
\<close>

definition main_on :: "dataframe \<Rightarrow> py_error + report" where
  "main_on df = generate_report (results (run_rules df))"

definition main :: "py_error + report" where
  "main = (case load_data of Inl e \<Rightarrow> Inl e | Inr df \<Rightarrow> main_on df)"

text \<open>
  The interpreter exits with status 0 when \<^verbatim>\<open>main\<close> returns and with status 1
  when an exception escapes it.
\<close>

definition exit_status :: "py_error + 'a \<Rightarrow> nat" where
  "exit_status r = (case r of Inl _ \<Rightarrow> 1 | Inr _ \<Rightarrow> 0)"

section \<open>The program with its state and its output\<close>

text \<open>
  Every function of the program prints, and \<^verbatim>\<open>print\<close> raises UnicodeEncodeError when
  the encoding of standard output cannot represent a character of the line. Three kinds
  of line occur: plain ASCII text, text with the degree sign of \<^verbatim>\<open>\<degree>C\<close> (in Latin-1
  but not in ASCII), and text with one of the pictographs that open the headings and the
  verdicts (in neither). A line is kept with its kind and the ASCII part of its fixed
  text; formatted numbers and data are left out. The identifiers and timestamps of the
  data are ASCII.
\<close>

datatype line = Plain string | Degree string | Emoji string

datatype encoding = Ascii | Latin1 | Utf8

fun can_encode :: "encoding \<Rightarrow> line \<Rightarrow> bool" where
  "can_encode Utf8 l = True"
| "can_encode Latin1 (Emoji t) = False"
| "can_encode Latin1 l = True"
| "can_encode Ascii (Plain t) = True"
| "can_encode Ascii l = False"

text \<open>
  The state a function of the program can change: the frame object that \<^verbatim>\<open>df\<close>
  refers to, and standard output. A function that wrote into the frame in place would
  change \<open>df_obj\<close>; the selections \<^verbatim>\<open>df[mask]\<close>, \<^verbatim>\<open>isnull\<close>, \<^verbatim>\<open>dropna\<close> and
  \<^verbatim>\<open>duplicated\<close> build new objects, which are local values here.
\<close>

record world =
  df_obj :: dataframe
  stdout_encoding :: encoding
  stdout :: "line list"

definition and_then ::
    "py_error + 'a \<times> world \<Rightarrow> ('a \<Rightarrow> world \<Rightarrow> py_error + 'b \<times> world) \<Rightarrow> py_error + 'b \<times> world" where
  "and_then m f = (case m of Inl e \<Rightarrow> Inl e | Inr (x, w) \<Rightarrow> f x w)"

definition print :: "line \<Rightarrow> world \<Rightarrow> py_error + unit \<times> world" where
  "print l w =
     (if can_encode (stdout_encoding w) l then Inr ((), w\<lparr> stdout := stdout w @ [l] \<rparr>)
      else Inl UnicodeEncodeError)"

fun print_all :: "line list \<Rightarrow> world \<Rightarrow> py_error + unit \<times> world" where
  "print_all [] w = Inr ((), w)"
| "print_all (l # ls) w = and_then (print l w) (\<lambda>_. print_all ls)"

definition rule_of :: string where
  "rule_of = replicate 70 CHR ''=''"

definition dashes :: string where
  "dashes = replicate 70 CHR ''-''"

definition load_data_io :: "world \<Rightarrow> py_error + dataframe \<times> world" where
  "load_data_io w =
     (case DataFrame sensor_data of
        Inl e \<Rightarrow> Inl e
      | Inr df \<Rightarrow>
          and_then
            (print_all
               [Plain rule_of, Plain ''IOT DATA QUALITY TESTING SYSTEM'', Plain rule_of,
                Emoji ''Sensor Data Loaded:'', Plain ''df'', Plain rule_of]
               (w\<lparr> df_obj := df \<rparr>))
            (\<lambda>_ w'. Inr (df, w')))"

definition test_missing_values_io :: "world \<Rightarrow> py_error + bool \<times> world" where
  "test_missing_values_io w =
     and_then
       (print_all [Emoji ''TEST 1: Missing Value Detection'', Plain dashes, Plain ''missing''] w)
       (\<lambda>_ w.
          if sum_list (missing (df_obj w)) > 0
          then and_then
                 (print_all [Emoji ''TEST FAILED: Missing values detected'',
                             Plain ''Affected Sensors:''] w)
                 (\<lambda>_ w. Inr (False, w))
          else and_then (print (Emoji ''TEST PASSED: No missing values'') w)
                 (\<lambda>_ w. Inr (True, w)))"

definition test_temperature_range_io :: "world \<Rightarrow> py_error + bool \<times> world" where
  "test_temperature_range_io w =
     and_then
       (print_all [Emoji ''TEST 2: Temperature Range Validation (0-50 C)'', Plain dashes] w)
       (\<lambda>_ w.
          let invalid = invalid_temperature (df_obj w) in
          if length invalid > 0
          then and_then
                 (print_all (Emoji ''TEST FAILED: Invalid temperature readings''
                             # map (\<lambda>row. Degree ''Sensor'') invalid) w)
                 (\<lambda>_ w. Inr (False, w))
          else and_then (print (Emoji ''TEST PASSED: All temperatures valid'') w)
                 (\<lambda>_ w. Inr (True, w)))"

definition test_humidity_range_io :: "world \<Rightarrow> py_error + bool \<times> world" where
  "test_humidity_range_io w =
     and_then
       (print_all [Emoji ''TEST 3: Humidity Range Validation (0-100%)'', Plain dashes] w)
       (\<lambda>_ w.
          let invalid = invalid_humidity (df_obj w) in
          if length invalid > 0
          then and_then
                 (print_all (Emoji ''TEST FAILED: Invalid humidity readings''
                             # map (\<lambda>row. Plain ''Sensor'') invalid) w)
                 (\<lambda>_ w. Inr (False, w))
          else and_then (print (Emoji ''TEST PASSED: All humidity values valid'') w)
                 (\<lambda>_ w. Inr (True, w)))"

definition test_duplicates_io :: "world \<Rightarrow> py_error + bool \<times> world" where
  "test_duplicates_io w =
     and_then
       (print_all [Emoji ''TEST 4: Duplicate Sensor ID Detection'', Plain dashes] w)
       (\<lambda>_ w.
          let dup_rows = duplicates (df_obj w) in
          if length dup_rows > 0
          then and_then
                 (print_all [Emoji ''TEST FAILED: Duplicate sensor IDs found'',
                             Plain ''duplicates''] w)
                 (\<lambda>_ w. Inr (False, w))
          else and_then (print (Emoji ''TEST PASSED: No duplicates'') w)
                 (\<lambda>_ w. Inr (True, w)))"

definition test_outliers_io :: "world \<Rightarrow> py_error + bool \<times> world" where
  "test_outliers_io w =
     and_then
       (print_all [Emoji ''TEST 5: Outlier Detection (Temperature)'', Plain dashes,
                   Degree ''Mean Temperature:'', Degree ''Standard Deviation:''] w)
       (\<lambda>_ w.
          let outlier_rows = outliers (df_obj w) in
          if length outlier_rows > 0
          then and_then
                 (print_all (Emoji ''WARNING: Outliers detected''
                             # map (\<lambda>row. Degree ''Sensor'') outlier_rows) w)
                 (\<lambda>_ w. Inr (False, w))
          else and_then (print (Emoji ''TEST PASSED: No outliers'') w)
                 (\<lambda>_ w. Inr (True, w)))"

text \<open>
  The heading of the report is printed before the division, the numbers and the verdict
  after it.
\<close>

definition generate_report_io :: "bool list \<Rightarrow> world \<Rightarrow> py_error + report \<times> world" where
  "generate_report_io rs w =
     and_then
       (print_all [Plain rule_of, Emoji ''FINAL TEST REPORT'', Plain rule_of] w)
       (\<lambda>_ w.
          case generate_report rs of
            Inl e \<Rightarrow> Inl e
          | Inr rep \<Rightarrow>
              and_then
                (print_all
                   [Plain ''Total Tests:'', Plain ''Passed:'', Plain ''Failed:'',
                    Plain ''Success Rate:'', Emoji ''Data Quality Score:'',
                    (case quality rep of
                       GOOD \<Rightarrow> Emoji ''RESULT: Data quality is GOOD''
                     | NEEDS_IMPROVEMENT \<Rightarrow> Emoji ''RESULT: Data quality needs IMPROVEMENT''
                     | POOR \<Rightarrow> Emoji ''RESULT: Data quality is POOR''),
                    Plain rule_of] w)
                (\<lambda>_ w. Inr (rep, w)))"

text \<open>The five calls of \<^verbatim>\<open>main\<close>, each appending its boolean to \<^verbatim>\<open>results\<close>.\<close>

definition run_rules_io :: "world \<Rightarrow> py_error + bool list \<times> world" where
  "run_rules_io w =
     and_then (test_missing_values_io w) (\<lambda>r1 w.
     and_then (test_temperature_range_io w) (\<lambda>r2 w.
     and_then (test_humidity_range_io w) (\<lambda>r3 w.
     and_then (test_duplicates_io w) (\<lambda>r4 w.
     and_then (test_outliers_io w) (\<lambda>r5 w.
     Inr ([] @ [r1] @ [r2] @ [r3] @ [r4] @ [r5], w))))))"

definition run_checks_io :: "world \<Rightarrow> py_error + report \<times> world" where
  "run_checks_io w = and_then (run_rules_io w) generate_report_io"

text \<open>
  The whole program on a standard output with the given encoding. No frame exists
  before \<^verbatim>\<open>load_data\<close> has built one.
\<close>

definition main_io :: "encoding \<Rightarrow> py_error + report \<times> world" where
  "main_io enc =
     and_then (load_data_io \<lparr> df_obj = [], stdout_encoding = enc, stdout = [] \<rparr>)
       (\<lambda>df. run_checks_io)"

section \<open>The outlier rule in the specification's words\<close>

text \<open>
  The non-absent temperatures of the collection, their mean, their population standard
  deviation, and the readings the rule flags: those whose present temperature is
  farther than two standard deviations from the mean.
\<close>

definition present_temperatures :: "dataframe \<Rightarrow> real list" where
  "present_temperatures df =
     concat (map (\<lambda>r. case temperature r of None \<Rightarrow> [] | Some t \<Rightarrow> [t]) df)"

definition mean_of :: "real list \<Rightarrow> real" where
  "mean_of xs = sum_list xs / real (length xs)"

definition population_std :: "real list \<Rightarrow> real" where
  "population_std xs = sqrt (sum_list (map (\<lambda>x. (x - mean_of xs)\<^sup>2) xs) / real (length xs))"

definition flagged :: "dataframe \<Rightarrow> reading \<Rightarrow> bool" where
  "flagged df r =
     (case temperature r of
        None \<Rightarrow> False
      | Some t \<Rightarrow>
          \<bar>t - mean_of (present_temperatures df)\<bar> > 2 * population_std (present_temperatures df))"

section \<open>Sample readings\<close>

definition reading_without_timestamp :: reading where
  "reading_without_timestamp =
     \<lparr> sensor_id = Some ''S001'', temperature = Some 25.5, humidity = Some 60,
       timestamp = None \<rparr>"

text \<open>The frame that \<^verbatim>\<open>load_data\<close> builds from \<^verbatim>\<open>sensor_data\<close>, row by row.\<close>

definition sample_frame :: dataframe where
  "sample_frame =
     [\<lparr> sensor_id = Some ''S001'', temperature = Some 25.5, humidity = Some 60,
        timestamp = Some ''2025-01-15 10:00'' \<rparr>,
      \<lparr> sensor_id = Some ''S002'', temperature = Some 28.3, humidity = Some 65,
        timestamp = Some ''2025-01-15 10:05'' \<rparr>,
      \<lparr> sensor_id = Some ''S003'', temperature = None, humidity = Some 70,
        timestamp = Some ''2025-01-15 10:10'' \<rparr>,
      \<lparr> sensor_id = Some ''S004'', temperature = Some 150.0, humidity = Some 55,
        timestamp = Some ''2025-01-15 10:15'' \<rparr>,
      \<lparr> sensor_id = Some ''S005'', temperature = Some 22.1, humidity = None,
        timestamp = Some ''2025-01-15 10:20'' \<rparr>,
      \<lparr> sensor_id = Some ''S006'', temperature = Some (- 50.0), humidity = Some 80,
        timestamp = Some ''2025-01-15 10:25'' \<rparr>,
      \<lparr> sensor_id = Some ''S007'', temperature = Some 30.2, humidity = Some 62,
        timestamp = Some ''2025-01-15 10:30'' \<rparr>,
      \<lparr> sensor_id = Some ''S008'', temperature = Some 26.8, humidity = Some 68,
        timestamp = Some ''2025-01-15 10:35'' \<rparr>]"

section \<open>Properties of the rules\<close>

lemma missing_total_pos:
  "0 < sum_list (missing df) \<longleftrightarrow> (\<exists>r \<in> set df. any_null r)"
  by (auto simp: missing_def any_null_def filter_empty_conv)

text \<open>
  The rule counts the null cells of all four columns, so in general it returns false
  exactly when some row has a null cell in any column.
\<close>

lemma test_missing_values_any_column:
  "test_missing_values df = False \<longleftrightarrow> (\<exists>r \<in> set df. any_null r)"
  unfolding test_missing_values_def missing_total_pos by simp

text \<open>
  A row whose only null cell is its timestamp is such a row, although its temperature and
  its humidity are present. No reading of the specification's data model is like that:
  there the identifier and the timestamp are plain strings.
\<close>

lemma test_missing_values_null_timestamp:
  "test_missing_values [reading_without_timestamp] = False"
  by (simp add: test_missing_values_def missing_def reading_without_timestamp_def)

text \<open>
  C3. For every collection of readings, that is, rows whose sensor identifier and
  timestamp are present as the data model says, the missing-value rule returns false
  exactly when at least one reading has an absent temperature or an absent humidity, and
  true otherwise.
\<close>

theorem test_missing_values_readings:
  assumes "\<forall>r \<in> set df. sensor_id r \<noteq> None \<and> timestamp r \<noteq> None"
  shows "(test_missing_values df = False \<longleftrightarrow>
            (\<exists>r \<in> set df. temperature r = None \<or> humidity r = None)) \<and>
         (test_missing_values df = True \<longleftrightarrow>
            \<not> (\<exists>r \<in> set df. temperature r = None \<or> humidity r = None))"
proof -
  from assms have "(\<exists>r \<in> set df. any_null r) \<longleftrightarrow>
      (\<exists>r \<in> set df. temperature r = None \<or> humidity r = None)"
    unfolding any_null_def by blast
  then show ?thesis
    unfolding test_missing_values_def missing_total_pos by simp
qed

theorem test_missing_values_readings_witness:
  "test_missing_values sample_frame = False \<and>
   test_missing_values
     [\<lparr> sensor_id = Some ''S002'', temperature = Some 28.3, humidity = Some 65,
        timestamp = Some ''2025-01-15 10:05'' \<rparr>] = True"
proof -
  have present: "\<forall>r \<in> set sample_frame. sensor_id r \<noteq> None \<and> timestamp r \<noteq> None"
    by (simp add: sample_frame_def)
  have absent: "\<exists>r \<in> set sample_frame. temperature r = None \<or> humidity r = None"
    by (simp add: sample_frame_def)
  from test_missing_values_readings [OF present] absent
  have "test_missing_values sample_frame = False" by blast
  moreover have "test_missing_values
     [\<lparr> sensor_id = Some ''S002'', temperature = Some 28.3, humidity = Some 65,
        timestamp = Some ''2025-01-15 10:05'' \<rparr>] = True"
    using test_missing_values_readings
      [of "[\<lparr> sensor_id = Some ''S002'', temperature = Some 28.3, humidity = Some 65,
              timestamp = Some ''2025-01-15 10:05'' \<rparr>]"]
    by simp
  ultimately show ?thesis by (intro conjI)
qed

subsection \<open>Range rules\<close>

lemma nan_lt_Some: "nan_lt a (Some c) \<longleftrightarrow> (\<exists>t. a = Some t \<and> t < c)"
  by (cases a) (simp_all add: nan_lt_def)

lemma nan_gt_Some: "nan_gt a (Some c) \<longleftrightarrow> (\<exists>t. a = Some t \<and> t > c)"
  by (cases a) (simp_all add: nan_gt_def)

lemma length_filter_pos: "0 < length (filter P xs) \<longleftrightarrow> (\<exists>x \<in> set xs. P x)"
  by (simp add: filter_empty_conv)

text \<open>
  C4. The temperature-range rule returns false exactly when some reading has a present
  temperature below 0 or above 50. A reading without a temperature is never counted, so
  the rule returns true whenever every present temperature lies in [0, 50].
\<close>

theorem test_temperature_range_iff:
  "(test_temperature_range df = False \<longleftrightarrow>
      (\<exists>r \<in> set df. \<exists>t. temperature r = Some t \<and> (t < 0 \<or> t > 50))) \<and>
   ((\<forall>r \<in> set df. \<forall>t. temperature r = Some t \<longrightarrow> 0 \<le> t \<and> t \<le> 50) \<longrightarrow>
      test_temperature_range df = True)"
proof -
  have fails: "test_temperature_range df = False \<longleftrightarrow>
      (\<exists>r \<in> set df. \<exists>t. temperature r = Some t \<and> (t < 0 \<or> t > 50))"
    unfolding test_temperature_range_def invalid_temperature_def length_filter_pos
      nan_lt_Some nan_gt_Some
    by auto
  have "test_temperature_range df = True"
    if "\<forall>r \<in> set df. \<forall>t. temperature r = Some t \<longrightarrow> 0 \<le> t \<and> t \<le> 50"
  proof (rule ccontr)
    assume "test_temperature_range df \<noteq> True"
    then have "test_temperature_range df = False" by simp
    with fails obtain r t where "r \<in> set df" "temperature r = Some t" "t < 0 \<or> t > 50"
      by blast
    with that show False by fastforce
  qed
  with fails show ?thesis by blast
qed

theorem test_temperature_range_iff_witness:
  "test_temperature_range
     [\<lparr> sensor_id = Some ''S001'', temperature = Some 0, humidity = Some 60, timestamp = None \<rparr>,
      \<lparr> sensor_id = Some ''S002'', temperature = None, humidity = Some 60, timestamp = None \<rparr>,
      \<lparr> sensor_id = Some ''S003'', temperature = Some 50, humidity = None, timestamp = None \<rparr>]
     = True \<and>
   test_temperature_range
     [\<lparr> sensor_id = Some ''S006'', temperature = Some (- 50.0), humidity = Some 80,
        timestamp = None \<rparr>] = False"
  using test_temperature_range_iff
      [of "[\<lparr> sensor_id = Some ''S001'', temperature = Some 0, humidity = Some 60, timestamp = None \<rparr>,
            \<lparr> sensor_id = Some ''S002'', temperature = None, humidity = Some 60, timestamp = None \<rparr>,
            \<lparr> sensor_id = Some ''S003'', temperature = Some 50, humidity = None, timestamp = None \<rparr>]"]
    test_temperature_range_iff
      [of "[\<lparr> sensor_id = Some ''S006'', temperature = Some (- 50.0), humidity = Some 80,
              timestamp = None \<rparr>]"]
  by simp

text \<open>
  C5. The humidity-range rule returns false exactly when some reading has a present
  humidity below 0 or above 100. A reading without a humidity is never counted, so the
  rule returns true whenever every present humidity lies in [0, 100].
\<close>

theorem test_humidity_range_iff:
  "(test_humidity_range df = False \<longleftrightarrow>
      (\<exists>r \<in> set df. \<exists>h. humidity r = Some h \<and> (h < 0 \<or> h > 100))) \<and>
   ((\<forall>r \<in> set df. \<forall>h. humidity r = Some h \<longrightarrow> 0 \<le> h \<and> h \<le> 100) \<longrightarrow>
      test_humidity_range df = True)"
proof -
  have fails: "test_humidity_range df = False \<longleftrightarrow>
      (\<exists>r \<in> set df. \<exists>h. humidity r = Some h \<and> (h < 0 \<or> h > 100))"
    unfolding test_humidity_range_def invalid_humidity_def length_filter_pos
      nan_lt_Some nan_gt_Some
    by auto
  have "test_humidity_range df = True"
    if "\<forall>r \<in> set df. \<forall>h. humidity r = Some h \<longrightarrow> 0 \<le> h \<and> h \<le> 100"
  proof (rule ccontr)
    assume "test_humidity_range df \<noteq> True"
    then have "test_humidity_range df = False" by simp
    with fails obtain r h where "r \<in> set df" "humidity r = Some h" "h < 0 \<or> h > 100"
      by blast
    with that show False by fastforce
  qed
  with fails show ?thesis by blast
qed

theorem test_humidity_range_iff_witness:
  "test_humidity_range
     [\<lparr> sensor_id = Some ''S001'', temperature = Some 25.5, humidity = Some 0, timestamp = None \<rparr>,
      \<lparr> sensor_id = Some ''S005'', temperature = Some 22.1, humidity = None, timestamp = None \<rparr>,
      \<lparr> sensor_id = Some ''S006'', temperature = None, humidity = Some 100, timestamp = None \<rparr>]
     = True \<and>
   test_humidity_range
     [\<lparr> sensor_id = Some ''S007'', temperature = Some 30.2, humidity = Some 101,
        timestamp = None \<rparr>] = False"
  using test_humidity_range_iff
      [of "[\<lparr> sensor_id = Some ''S001'', temperature = Some 25.5, humidity = Some 0, timestamp = None \<rparr>,
            \<lparr> sensor_id = Some ''S005'', temperature = Some 22.1, humidity = None, timestamp = None \<rparr>,
            \<lparr> sensor_id = Some ''S006'', temperature = None, humidity = Some 100, timestamp = None \<rparr>]"]
    test_humidity_range_iff
      [of "[\<lparr> sensor_id = Some ''S007'', temperature = Some 30.2, humidity = Some 101,
              timestamp = None \<rparr>]"]
  by simp

subsection \<open>Duplicate identifiers\<close>

lemma duplicates_filter:
  "duplicates df = filter (\<lambda>r. 1 < count_list (map sensor_id df) (sensor_id r)) df"
proof -
  have "map fst (filter snd (zip xs (map f xs))) = filter f xs" for f and xs :: "reading list"
    by (induction xs) simp_all
  then show ?thesis by (simp add: duplicates_def duplicated_def)
qed

lemma count_list_pos: "0 < count_list xs x \<longleftrightarrow> x \<in> set xs"
  by (induction xs) auto

lemma distinct_count_list: "distinct xs \<longleftrightarrow> (\<forall>x. count_list xs x \<le> 1)"
proof (induction xs)
  case Nil
  show ?case by simp
next
  case (Cons a xs)
  have a: "a \<notin> set xs \<longleftrightarrow> count_list xs a = 0"
    using count_list_pos [of xs a] by auto
  have "(\<forall>x. count_list (a # xs) x \<le> 1) \<longleftrightarrow> count_list xs a = 0 \<and> (\<forall>x. count_list xs x \<le> 1)"
    (is "?L \<longleftrightarrow> ?R")
  proof
    assume l: ?L
    from l [rule_format, of a] have z: "count_list xs a = 0" by simp
    moreover have "count_list xs x \<le> 1" for x
      using l [rule_format, of x] z by (cases "x = a") simp_all
    ultimately show ?R by simp
  next
    assume ?R
    then show ?L by simp
  qed
  with Cons a show ?case by simp
qed

text \<open>
  C6. The duplicate-identifier rule returns false exactly when some sensor identifier
  occurs two or more times in the identifier column, and true exactly when the
  identifiers of the collection are pairwise distinct.
\<close>

theorem test_duplicates_iff:
  "(test_duplicates df = False \<longleftrightarrow> (\<exists>i. 2 \<le> count_list (map sensor_id df) i)) \<and>
   (test_duplicates df = True \<longleftrightarrow> distinct (map sensor_id df))"
proof -
  have ex: "(\<exists>r \<in> set df. 1 < count_list (map sensor_id df) (sensor_id r)) \<longleftrightarrow>
        (\<exists>i. 2 \<le> count_list (map sensor_id df) i)"
  proof
    assume "\<exists>r \<in> set df. 1 < count_list (map sensor_id df) (sensor_id r)"
    then show "\<exists>i. 2 \<le> count_list (map sensor_id df) i" by (metis Suc_1 Suc_leI)
  next
    assume "\<exists>i. 2 \<le> count_list (map sensor_id df) i"
    then obtain i where i: "2 \<le> count_list (map sensor_id df) i" ..
    then have "i \<in> set (map sensor_id df)"
      using count_list_pos [of "map sensor_id df" i] by simp
    then obtain r where r: "r \<in> set df" "sensor_id r = i" by auto
    from i have "1 < count_list (map sensor_id df) i" by linarith
    with r show "\<exists>r \<in> set df. 1 < count_list (map sensor_id df) (sensor_id r)" by blast
  qed
  have fails: "test_duplicates df = False \<longleftrightarrow> (\<exists>i. 2 \<le> count_list (map sensor_id df) i)"
    unfolding test_duplicates_def duplicates_filter length_filter_pos ex by simp
  have "distinct (map sensor_id df) \<longleftrightarrow> \<not> (\<exists>i. 2 \<le> count_list (map sensor_id df) i)"
    unfolding distinct_count_list by (auto simp: not_le less_Suc_eq_le numeral_2_eq_2)
  with fails show ?thesis by auto
qed

theorem test_duplicates_iff_witness:
  "test_duplicates
     [\<lparr> sensor_id = Some ''S001'', temperature = Some 25.5, humidity = Some 60, timestamp = None \<rparr>,
      \<lparr> sensor_id = Some ''S002'', temperature = Some 28.3, humidity = Some 65, timestamp = None \<rparr>]
     = True \<and>
   test_duplicates
     [\<lparr> sensor_id = Some ''S001'', temperature = Some 25.5, humidity = Some 60, timestamp = None \<rparr>,
      \<lparr> sensor_id = Some ''S002'', temperature = Some 28.3, humidity = Some 65, timestamp = None \<rparr>,
      \<lparr> sensor_id = Some ''S001'', temperature = None, humidity = Some 70, timestamp = None \<rparr>]
     = False"
proof -
  have "count_list (map sensor_id
     [\<lparr> sensor_id = Some ''S001'', temperature = Some 25.5, humidity = Some 60, timestamp = None \<rparr>,
      \<lparr> sensor_id = Some ''S002'', temperature = Some 28.3, humidity = Some 65, timestamp = None \<rparr>,
      \<lparr> sensor_id = Some ''S001'', temperature = None, humidity = Some 70, timestamp = None \<rparr>])
     (Some ''S001'') = 2"
    by simp
  then have "\<exists>i. 2 \<le> count_list (map sensor_id
     [\<lparr> sensor_id = Some ''S001'', temperature = Some 25.5, humidity = Some 60, timestamp = None \<rparr>,
      \<lparr> sensor_id = Some ''S002'', temperature = Some 28.3, humidity = Some 65, timestamp = None \<rparr>,
      \<lparr> sensor_id = Some ''S001'', temperature = None, humidity = Some 70, timestamp = None \<rparr>]) i"
    by (intro exI [of _ "Some ''S001''"]) (simp only: order_refl)
  then show ?thesis
    using test_duplicates_iff
      [of "[\<lparr> sensor_id = Some ''S001'', temperature = Some 25.5, humidity = Some 60, timestamp = None \<rparr>,
            \<lparr> sensor_id = Some ''S002'', temperature = Some 28.3, humidity = Some 65, timestamp = None \<rparr>]"]
      test_duplicates_iff
      [of "[\<lparr> sensor_id = Some ''S001'', temperature = Some 25.5, humidity = Some 60, timestamp = None \<rparr>,
            \<lparr> sensor_id = Some ''S002'', temperature = Some 28.3, humidity = Some 65, timestamp = None \<rparr>,
            \<lparr> sensor_id = Some ''S001'', temperature = None, humidity = Some 70, timestamp = None \<rparr>]"]
    by simp
qed

subsection \<open>Outliers\<close>

lemma dropna_present: "dropna (map temperature df) = present_temperatures df"
proof -
  have "dropna cs = concat (map (\<lambda>c. case c of None \<Rightarrow> [] | Some t \<Rightarrow> [t]) cs)" for cs
    by (induction cs rule: dropna.induct) simp_all
  then show ?thesis by (simp add: present_temperatures_def comp_def)
qed

lemma present_nonempty:
  "r \<in> set df \<Longrightarrow> temperature r = Some t \<Longrightarrow> present_temperatures df \<noteq> []"
  by (force simp: present_temperatures_def)

lemma np_mean_Some: "xs \<noteq> [] \<Longrightarrow> np_mean xs = Some (mean_of xs)"
  by (simp add: np_mean_def mean_of_def)

lemma np_std_Some: "xs \<noteq> [] \<Longrightarrow> np_std xs = Some (population_std xs)"
  by (simp add: np_std_def np_mean_def population_std_def mean_of_def)

lemma outlier_mask_flagged:
  assumes "r \<in> set df"
  shows "nan_gt (nan_abs (nan_sub (temperature r) (np_mean (dropna (map temperature df)))))
           (nan_mul (Some 2) (np_std (dropna (map temperature df)))) = flagged df r"
proof (cases "temperature r")
  case None
  then show ?thesis by (simp add: flagged_def nan_gt_def nan_abs_def nan_sub_def)
next
  case (Some t)
  with assms have ne: "present_temperatures df \<noteq> []" by (rule present_nonempty)
  note eq = dropna_present [of df]
  show ?thesis
    unfolding eq np_mean_Some [OF ne] np_std_Some [OF ne]
    by (simp add: Some flagged_def nan_gt_def nan_abs_def nan_sub_def nan_mul_def)
qed

lemma outliers_flagged: "outliers df = filter (flagged df) df"
  unfolding outliers_def Let_def
  by (rule filter_cong [OF refl]) (rule outlier_mask_flagged)

lemma abs_gt_two_sqrt:
  fixes a v :: real
  assumes "0 \<le> v"
  shows "\<bar>a\<bar> > 2 * sqrt v \<longleftrightarrow> a\<^sup>2 > 4 * v"
proof -
  have "2 * sqrt v = sqrt (4 * v)" by (simp add: real_sqrt_mult)
  moreover have "\<bar>a\<bar> = sqrt (a\<^sup>2)" by simp
  ultimately show ?thesis by (simp only: real_sqrt_less_iff)
qed

lemma variance_nonneg:
  "0 \<le> sum_list (map (\<lambda>x. (x - m)\<^sup>2) xs) / real (length xs)" for m :: real
  by (intro divide_nonneg_nonneg sum_list_nonneg) auto

lemma flagged_squares:
  "flagged df r =
     (case temperature r of
        None \<Rightarrow> False
      | Some t \<Rightarrow>
          (t - mean_of (present_temperatures df))\<^sup>2 >
          4 * (sum_list (map (\<lambda>x. (x - mean_of (present_temperatures df))\<^sup>2)
                 (present_temperatures df)) / real (length (present_temperatures df))))"
  unfolding flagged_def population_std_def
  by (simp add: abs_gt_two_sqrt [OF variance_nonneg] split: option.split)

lemma load_data_sample: "load_data = Inr sample_frame"
  by (simp add: load_data_def DataFrame_def sensor_data_def sample_frame_def)

lemma sample_present:
  "present_temperatures sample_frame = [25.5, 28.3, 150.0, 22.1, - 50.0, 30.2, 26.8]"
  by (simp add: present_temperatures_def sample_frame_def)

lemma sample_mean: "mean_of [25.5, 28.3, 150.0, 22.1, - 50.0, 30.2, 26.8] = 2329 / 70"
  by (simp add: mean_of_def)

lemma sample_variance:
  "sum_list (map (\<lambda>x. (x - 2329 / 70)\<^sup>2) [25.5, 28.3, 150.0, 22.1, - 50.0, 30.2, 26.8 :: real]) / 7
     = 728732 / 245"
  by (simp add: power2_eq_square)

lemma sample_outliers:
  "filter (flagged sample_frame) sample_frame =
     [\<lparr> sensor_id = Some ''S004'', temperature = Some 150.0, humidity = Some 55,
        timestamp = Some ''2025-01-15 10:15'' \<rparr>]"
  unfolding flagged_squares sample_present sample_mean
  apply (simp only: length_Cons list.size sample_variance)
  apply (simp add: sample_frame_def power2_eq_square)
  done

lemma sample_test_outliers: "test_outliers sample_frame = False"
  by (simp add: test_outliers_def outliers_flagged sample_outliers)

text \<open>
  The rule as it is modelled here, in exact arithmetic: the statistics are taken over
  exactly the present temperatures, a row is selected exactly when it has a temperature
  strictly farther than two population standard deviations from the mean, a row without
  a temperature is never selected, and the rule returns false exactly when a row is
  selected. The program evaluates the same expressions in float64, where the rounding of
  the mean and of the standard deviation decides a comparison whose two sides are equal
  or nearly equal in exact arithmetic; this lemma says nothing about such inputs.
\<close>

lemma test_outliers_exact:
  "np_mean (dropna (map temperature df)) =
     (if present_temperatures df = [] then None else Some (mean_of (present_temperatures df))) \<and>
   np_std (dropna (map temperature df)) =
     (if present_temperatures df = [] then None
      else Some (population_std (present_temperatures df))) \<and>
   outliers df = filter (flagged df) df \<and>
   (temperature r = None \<longrightarrow> \<not> flagged df r) \<and>
   (test_outliers df = False \<longleftrightarrow> (\<exists>r \<in> set df. flagged df r)) \<and>
   (test_outliers df = True \<longleftrightarrow> \<not> (\<exists>r \<in> set df. flagged df r))"
proof -
  note eq = dropna_present [of df]
  have m: "np_mean (dropna (map temperature df)) =
     (if present_temperatures df = [] then None else Some (mean_of (present_temperatures df)))"
    unfolding eq by (simp add: np_mean_def mean_of_def)
  have s: "np_std (dropna (map temperature df)) =
     (if present_temperatures df = [] then None
      else Some (population_std (present_temperatures df)))"
    unfolding eq by (simp add: np_std_def np_mean_def population_std_def mean_of_def)
  have n: "temperature r = None \<longrightarrow> \<not> flagged df r"
    by (simp add: flagged_def)
  have f: "test_outliers df = False \<longleftrightarrow> (\<exists>r \<in> set df. flagged df r)"
    unfolding test_outliers_def outliers_flagged length_filter_pos by simp
  from f have t: "test_outliers df = True \<longleftrightarrow> \<not> (\<exists>r \<in> set df. flagged df r)"
    by auto
  from m s outliers_flagged [of df] n f t show ?thesis
    by (intro conjI)
qed


subsection \<open>The report\<close>

lemma sum_of_bool_count: "sum_list (map of_bool rs) = int (count_list rs True)"
  by (induction rs) simp_all

lemma generate_report_nonempty:
  assumes "rs \<noteq> []"
  shows "generate_report rs =
    Inr \<lparr> total_tests = int (length rs), passed = int (count_list rs True),
          failed = int (length rs) - int (count_list rs True),
          success_rate = real (count_list rs True) / real (length rs) * 100,
          quality = (if real (count_list rs True) / real (length rs) * 100 \<ge> 80 then GOOD
                     else if real (count_list rs True) / real (length rs) * 100 \<ge> 60
                     then NEEDS_IMPROVEMENT else POOR) \<rparr>"
  using assms by (simp add: generate_report_def sum_of_bool_count Let_def)

lemma generate_report_empty: "generate_report [] = Inl ZeroDivisionError"
  by (simp add: generate_report_def)

text \<open>
  C2. For every non-empty list of rule results the report holds: total = length of the
  list, passed = number of true entries, failed = total - passed, success rate =
  passed / total * 100; the quality is GOOD exactly when the rate is at least 80,
  NEEDS IMPROVEMENT exactly when it is at least 60 and below 80, and POOR exactly when
  it is below 60. The results [False, False, False, True, False] give the rate 20 and
  POOR; five times True gives the rate 100 and GOOD.
\<close>

theorem generate_report_spec:
  "(rs \<noteq> [] \<longrightarrow>
      (\<exists>rep. generate_report rs = Inr rep \<and>
         total_tests rep = int (length rs) \<and>
         passed rep = int (count_list rs True) \<and>
         failed rep = total_tests rep - passed rep \<and>
         success_rate rep = real_of_int (passed rep) / real_of_int (total_tests rep) * 100 \<and>
         (quality rep = GOOD \<longleftrightarrow> success_rate rep \<ge> 80) \<and>
         (quality rep = NEEDS_IMPROVEMENT \<longleftrightarrow> success_rate rep \<ge> 60 \<and> success_rate rep < 80) \<and>
         (quality rep = POOR \<longleftrightarrow> success_rate rep < 60))) \<and>
   generate_report [False, False, False, True, False] =
     Inr \<lparr> total_tests = 5, passed = 1, failed = 4, success_rate = 20, quality = POOR \<rparr> \<and>
   generate_report [True, True, True, True, True] =
     Inr \<lparr> total_tests = 5, passed = 5, failed = 0, success_rate = 100, quality = GOOD \<rparr>"
proof (intro conjI impI)
  assume ne: "rs \<noteq> []"
  show "\<exists>rep. generate_report rs = Inr rep \<and>
         total_tests rep = int (length rs) \<and>
         passed rep = int (count_list rs True) \<and>
         failed rep = total_tests rep - passed rep \<and>
         success_rate rep = real_of_int (passed rep) / real_of_int (total_tests rep) * 100 \<and>
         (quality rep = GOOD \<longleftrightarrow> success_rate rep \<ge> 80) \<and>
         (quality rep = NEEDS_IMPROVEMENT \<longleftrightarrow> success_rate rep \<ge> 60 \<and> success_rate rep < 80) \<and>
         (quality rep = POOR \<longleftrightarrow> success_rate rep < 60)"
  proof -
    define rate where "rate = real (count_list rs True) / real (length rs) * 100"
    define rep where "rep =
      \<lparr> total_tests = int (length rs), passed = int (count_list rs True),
        failed = int (length rs) - int (count_list rs True), success_rate = rate,
        quality = (if rate \<ge> 80 then GOOD else if rate \<ge> 60 then NEEDS_IMPROVEMENT else POOR) \<rparr>"
    have g: "generate_report rs = Inr rep"
      unfolding rep_def rate_def by (rule generate_report_nonempty [OF ne])
    have t: "total_tests rep = int (length rs)" and p: "passed rep = int (count_list rs True)"
      and f: "failed rep = total_tests rep - passed rep" and r: "success_rate rep = rate"
      by (simp_all add: rep_def)
    have r': "success_rate rep = real_of_int (passed rep) / real_of_int (total_tests rep) * 100"
      by (simp only: r t p rate_def of_int_of_nat_eq)
    have q: "quality rep = (if rate \<ge> 80 then GOOD else if rate \<ge> 60 then NEEDS_IMPROVEMENT else POOR)"
      by (simp add: rep_def)
    have q1: "quality rep = GOOD \<longleftrightarrow> success_rate rep \<ge> 80"
      unfolding q r by simp
    have q2: "quality rep = NEEDS_IMPROVEMENT \<longleftrightarrow> success_rate rep \<ge> 60 \<and> success_rate rep < 80"
      unfolding q r by auto
    have q3: "quality rep = POOR \<longleftrightarrow> success_rate rep < 60"
      unfolding q r by auto
    from g t p f r' q1 q2 q3 show ?thesis by blast
  qed
next
  show "generate_report [False, False, False, True, False] =
     Inr \<lparr> total_tests = 5, passed = 1, failed = 4, success_rate = 20, quality = POOR \<rparr>"
    by (simp add: generate_report_def)
next
  show "generate_report [True, True, True, True, True] =
     Inr \<lparr> total_tests = 5, passed = 5, failed = 0, success_rate = 100, quality = GOOD \<rparr>"
    by (simp add: generate_report_def)
qed

theorem generate_report_spec_witness:
  "generate_report [True, True, False, True, False] =
     Inr \<lparr> total_tests = 5, passed = 3, failed = 2, success_rate = 60,
           quality = NEEDS_IMPROVEMENT \<rparr>"
proof -
  from generate_report_spec [of "[True, True, False, True, False]"]
  obtain rep where rep: "generate_report [True, True, False, True, False] = Inr rep"
    "total_tests rep = 5" "passed rep = 3" "failed rep = total_tests rep - passed rep"
    "success_rate rep = real_of_int (passed rep) / real_of_int (total_tests rep) * 100"
    "quality rep = NEEDS_IMPROVEMENT \<longleftrightarrow> success_rate rep \<ge> 60 \<and> success_rate rep < 80"
    by auto
  then have "rep = \<lparr> total_tests = 5, passed = 3, failed = 2, success_rate = 60,
           quality = NEEDS_IMPROVEMENT \<rparr>"
    by (cases rep) simp
  with rep(1) show ?thesis by simp
qed


subsection \<open>The main program\<close>

lemma results_run_rules:
  "results (run_rules df) =
     [test_missing_values df, test_temperature_range df, test_humidity_range df,
      test_duplicates df, test_outliers df]"
  by (simp add: run_rules_def append_result_def Let_def)

lemma main_on_returns: "\<exists>rep. main_on df = Inr rep"
  unfolding main_on_def
  by (rule exI, rule generate_report_nonempty) (simp add: results_run_rules)

lemma sample_results:
  "results (run_rules sample_frame) = [False, False, True, True, False]"
  unfolding results_run_rules sample_test_outliers
  by (simp add: sample_frame_def test_missing_values_def missing_def
      test_temperature_range_def invalid_temperature_def nan_lt_def nan_gt_def
      test_humidity_range_def invalid_humidity_def test_duplicates_def duplicates_filter)


lemma sample_outlier_rows:
  "outliers sample_frame =
     [\<lparr> sensor_id = Some ''S004'', temperature = Some 150.0, humidity = Some 55,
        timestamp = Some ''2025-01-15 10:15'' \<rparr>]"
  by (simp only: outliers_flagged sample_outliers)

text \<open>
  C7. On the fixed data set of eight readings the five rules give, in the order they
  run, [False, False, True, True, False]: the missing-value and the temperature-range
  rule fail, the humidity-range and the duplicate rule pass, and the outlier rule fails
  because exactly one reading, S004 at 150.0, is farther than two population standard
  deviations from the mean (S006 at -50.0 is not). The report then has the success
  rate 40 and the quality POOR.
\<close>

theorem main_on_sample_data:
  "load_data = Inr sample_frame \<and>
   length sample_frame = 8 \<and>
   results (run_rules sample_frame) = [False, False, True, True, False] \<and>
   map sensor_id (outliers sample_frame) = [Some ''S004''] \<and>
   map temperature (outliers sample_frame) = [Some 150.0] \<and>
   main = Inr \<lparr> total_tests = 5, passed = 2, failed = 3, success_rate = 40, quality = POOR \<rparr>"
proof -
  have "length sample_frame = 8" by (simp add: sample_frame_def)
  moreover have "main =
      Inr \<lparr> total_tests = 5, passed = 2, failed = 3, success_rate = 40, quality = POOR \<rparr>"
    by (simp add: main_def load_data_sample main_on_def sample_results generate_report_def)
  ultimately show ?thesis
    by (simp add: load_data_sample sample_results sample_outlier_rows)
qed

text \<open>
  C8. The report divides the passed count by the length of the results without a guard:
  on the empty list the division raises ZeroDivisionError, and the empty list is the only
  list on which the report fails. The main program always hands over exactly five
  results, so there the report is always produced.
\<close>

theorem generate_report_defined_iff:
  "generate_report [] = Inl ZeroDivisionError \<and>
   (rs \<noteq> [] \<longrightarrow> (\<exists>rep. generate_report rs = Inr rep)) \<and>
   ((\<exists>e. generate_report rs = Inl e) \<longleftrightarrow> rs = []) \<and>
   length (results (run_rules df)) = 5 \<and>
   (\<exists>rep. main_on df = Inr rep)"
proof -
  have ne: "\<exists>rep. generate_report rs = Inr rep" if "rs \<noteq> []"
    using generate_report_nonempty [OF that] by blast
  then have "(\<exists>e. generate_report rs = Inl e) \<longleftrightarrow> rs = []"
    using generate_report_empty by (cases "rs = []") auto
  with ne generate_report_empty main_on_returns [of df] show ?thesis
    by (simp add: results_run_rules)
qed

theorem generate_report_defined_iff_witness:
  "generate_report [] = Inl ZeroDivisionError \<and>
   (\<exists>rep. generate_report [True] = Inr rep) \<and>
   length (results (run_rules sample_frame)) = 5"
  using generate_report_defined_iff [of "[True]" sample_frame] by simp

section \<open>Properties of the program with its state and its output\<close>

lemma print_keeps:
  "print l w = Inr (u, w') \<Longrightarrow> df_obj w' = df_obj w \<and> stdout_encoding w' = stdout_encoding w"
  by (auto simp: print_def split: if_splits)

lemma print_all_keeps:
  "print_all ls w = Inr (u, w') \<Longrightarrow> df_obj w' = df_obj w \<and> stdout_encoding w' = stdout_encoding w"
proof (induction ls arbitrary: w)
  case Nil
  then show ?case by simp
next
  case (Cons l ls)
  from Cons.prems obtain w1 where p: "print l w = Inr ((), w1)" and rest: "print_all ls w1 = Inr (u, w')"
    by (auto simp: and_then_def split: sum.splits)
  from print_keeps [OF p] Cons.IH [OF rest] show ?case by simp
qed

lemma print_utf8:
  "stdout_encoding w = Utf8 \<Longrightarrow> print l w = Inr ((), w\<lparr> stdout := stdout w @ [l] \<rparr>)"
  by (simp add: print_def)

lemma print_all_utf8:
  "stdout_encoding w = Utf8 \<Longrightarrow> print_all ls w = Inr ((), w\<lparr> stdout := stdout w @ ls \<rparr>)"
  by (induction ls arbitrary: w) (simp_all add: print_utf8 and_then_def)

lemma and_then_Inr:
  "and_then m f = Inr r \<longleftrightarrow> (\<exists>x w. m = Inr (x, w) \<and> f x w = Inr r)"
  by (auto simp: and_then_def split: sum.splits)

lemma checked_result:
  assumes run: "and_then (print_all hdr w)
      (\<lambda>_ w. if c (df_obj w)
              then and_then (print_all (ls (df_obj w)) w) (\<lambda>_ w. Inr (False, w))
              else and_then (print l w) (\<lambda>_ w. Inr (True, w))) = Inr (b, w')"
  shows "b = (\<not> c (df_obj w)) \<and> df_obj w' = df_obj w \<and> stdout_encoding w' = stdout_encoding w"
proof -
  from run obtain w1 where hdr: "print_all hdr w = Inr ((), w1)"
    and body: "(if c (df_obj w1)
              then and_then (print_all (ls (df_obj w1)) w1) (\<lambda>_ w. Inr (False, w))
              else and_then (print l w1) (\<lambda>_ w. Inr (True, w))) = Inr (b, w')"
    unfolding and_then_Inr by auto
  note k1 = print_all_keeps [OF hdr]
  show ?thesis
  proof (cases "c (df_obj w1)")
    case True
    with body obtain w2 where "print_all (ls (df_obj w1)) w1 = Inr ((), w2)" "b = False" "w' = w2"
      by (auto simp: and_then_Inr)
    with print_all_keeps [of "ls (df_obj w1)" w1 "()" w2] k1 True show ?thesis by simp
  next
    case False
    with body obtain w2 where "print l w1 = Inr ((), w2)" "b = True" "w' = w2"
      by (auto simp: and_then_Inr)
    with print_keeps [of l w1 "()" w2] k1 False show ?thesis by simp
  qed
qed

lemma checked_utf8:
  assumes "stdout_encoding w = Utf8"
  shows "\<exists>w'. and_then (print_all hdr w)
      (\<lambda>_ w. if c (df_obj w)
              then and_then (print_all (ls (df_obj w)) w) (\<lambda>_ w. Inr (False, w))
              else and_then (print l w) (\<lambda>_ w. Inr (True, w))) = Inr (\<not> c (df_obj w), w')"
  using assms by (simp add: print_all_utf8 print_utf8 and_then_def)

lemma if_False_True: "(if c then False else True) = (\<not> c)"
  by simp

lemma test_missing_values_io_result:
  assumes "test_missing_values_io w = Inr (b, w')"
  shows "b = test_missing_values (df_obj w) \<and> df_obj w' = df_obj w \<and>
         stdout_encoding w' = stdout_encoding w"
  unfolding test_missing_values_def if_False_True
  by (rule checked_result
      [where c = "\<lambda>df. sum_list (missing df) > 0"
         and ls = "\<lambda>df. [Emoji ''TEST FAILED: Missing values detected'', Plain ''Affected Sensors:'']",
       OF assms [unfolded test_missing_values_io_def]])

lemma test_missing_values_io_utf8:
  assumes "stdout_encoding w = Utf8"
  shows "\<exists>w'. test_missing_values_io w = Inr (test_missing_values (df_obj w), w')"
  unfolding test_missing_values_io_def test_missing_values_def if_False_True
  by (rule checked_utf8
      [where c = "\<lambda>df. sum_list (missing df) > 0"
         and ls = "\<lambda>df. [Emoji ''TEST FAILED: Missing values detected'', Plain ''Affected Sensors:'']",
       OF assms])

lemma test_temperature_range_io_result:
  assumes "test_temperature_range_io w = Inr (b, w')"
  shows "b = test_temperature_range (df_obj w) \<and> df_obj w' = df_obj w \<and>
         stdout_encoding w' = stdout_encoding w"
  unfolding test_temperature_range_def if_False_True
  by (rule checked_result
      [where c = "\<lambda>df. length (invalid_temperature df) > 0"
         and ls = "\<lambda>df. Emoji ''TEST FAILED: Invalid temperature readings''
                        # map (\<lambda>row. Degree ''Sensor'') (invalid_temperature df)",
       OF assms [unfolded test_temperature_range_io_def Let_def]])

lemma test_temperature_range_io_utf8:
  assumes "stdout_encoding w = Utf8"
  shows "\<exists>w'. test_temperature_range_io w = Inr (test_temperature_range (df_obj w), w')"
  unfolding test_temperature_range_io_def test_temperature_range_def if_False_True Let_def
  by (rule checked_utf8
      [where c = "\<lambda>df. length (invalid_temperature df) > 0"
         and ls = "\<lambda>df. Emoji ''TEST FAILED: Invalid temperature readings''
                        # map (\<lambda>row. Degree ''Sensor'') (invalid_temperature df)",
       OF assms])

lemma test_humidity_range_io_result:
  assumes "test_humidity_range_io w = Inr (b, w')"
  shows "b = test_humidity_range (df_obj w) \<and> df_obj w' = df_obj w \<and>
         stdout_encoding w' = stdout_encoding w"
  unfolding test_humidity_range_def if_False_True
  by (rule checked_result
      [where c = "\<lambda>df. length (invalid_humidity df) > 0"
         and ls = "\<lambda>df. Emoji ''TEST FAILED: Invalid humidity readings'' # map (\<lambda>row. Plain ''Sensor'') (invalid_humidity df)",
       OF assms [unfolded test_humidity_range_io_def Let_def]])

lemma test_humidity_range_io_utf8:
  assumes "stdout_encoding w = Utf8"
  shows "\<exists>w'. test_humidity_range_io w = Inr (test_humidity_range (df_obj w), w')"
  unfolding test_humidity_range_io_def test_humidity_range_def if_False_True Let_def
  by (rule checked_utf8
      [where c = "\<lambda>df. length (invalid_humidity df) > 0"
         and ls = "\<lambda>df. Emoji ''TEST FAILED: Invalid humidity readings'' # map (\<lambda>row. Plain ''Sensor'') (invalid_humidity df)",
       OF assms])

lemma test_duplicates_io_result:
  assumes "test_duplicates_io w = Inr (b, w')"
  shows "b = test_duplicates (df_obj w) \<and> df_obj w' = df_obj w \<and>
         stdout_encoding w' = stdout_encoding w"
  unfolding test_duplicates_def if_False_True
  by (rule checked_result
      [where c = "\<lambda>df. length (duplicates df) > 0"
         and ls = "\<lambda>df. [Emoji ''TEST FAILED: Duplicate sensor IDs found'', Plain ''duplicates'']",
       OF assms [unfolded test_duplicates_io_def Let_def]])

lemma test_duplicates_io_utf8:
  assumes "stdout_encoding w = Utf8"
  shows "\<exists>w'. test_duplicates_io w = Inr (test_duplicates (df_obj w), w')"
  unfolding test_duplicates_io_def test_duplicates_def if_False_True Let_def
  by (rule checked_utf8
      [where c = "\<lambda>df. length (duplicates df) > 0"
         and ls = "\<lambda>df. [Emoji ''TEST FAILED: Duplicate sensor IDs found'', Plain ''duplicates'']",
       OF assms])

lemma test_outliers_io_result:
  assumes "test_outliers_io w = Inr (b, w')"
  shows "b = test_outliers (df_obj w) \<and> df_obj w' = df_obj w \<and>
         stdout_encoding w' = stdout_encoding w"
  unfolding test_outliers_def if_False_True
  by (rule checked_result
      [where c = "\<lambda>df. length (outliers df) > 0"
         and ls = "\<lambda>df. Emoji ''WARNING: Outliers detected'' # map (\<lambda>row. Degree ''Sensor'') (outliers df)",
       OF assms [unfolded test_outliers_io_def Let_def]])

lemma test_outliers_io_utf8:
  assumes "stdout_encoding w = Utf8"
  shows "\<exists>w'. test_outliers_io w = Inr (test_outliers (df_obj w), w')"
  unfolding test_outliers_io_def test_outliers_def if_False_True Let_def
  by (rule checked_utf8
      [where c = "\<lambda>df. length (outliers df) > 0"
         and ls = "\<lambda>df. Emoji ''WARNING: Outliers detected'' # map (\<lambda>row. Degree ''Sensor'') (outliers df)",
       OF assms])

lemma run_rules_io_result:
  assumes "run_rules_io w = Inr (rs, w')"
  shows "rs = results (run_rules (df_obj w)) \<and> df_obj w' = df_obj w \<and>
         stdout_encoding w' = stdout_encoding w"
proof -
  from assms obtain r1 w1 r2 w2 r3 w3 r4 w4 r5 where
    1: "test_missing_values_io w = Inr (r1, w1)" and
    2: "test_temperature_range_io w1 = Inr (r2, w2)" and
    3: "test_humidity_range_io w2 = Inr (r3, w3)" and
    4: "test_duplicates_io w3 = Inr (r4, w4)" and
    5: "test_outliers_io w4 = Inr (r5, w')" and
    rs: "rs = [r1, r2, r3, r4, r5]"
    by (auto simp: run_rules_io_def and_then_Inr)
  note k = test_missing_values_io_result [OF 1] test_temperature_range_io_result [OF 2]
    test_humidity_range_io_result [OF 3] test_duplicates_io_result [OF 4]
    test_outliers_io_result [OF 5]
  from k rs show ?thesis by (simp add: results_run_rules)
qed

lemma run_rules_io_utf8:
  assumes "stdout_encoding w = Utf8"
  shows "\<exists>w'. run_rules_io w = Inr (results (run_rules (df_obj w)), w')"
proof -
  from test_missing_values_io_utf8 [OF assms] obtain w1 where
    1: "test_missing_values_io w = Inr (test_missing_values (df_obj w), w1)" ..
  from test_missing_values_io_result [OF 1] assms
  have k1: "df_obj w1 = df_obj w" "stdout_encoding w1 = Utf8" by simp_all
  from test_temperature_range_io_utf8 [OF k1(2)] obtain w2 where
    2: "test_temperature_range_io w1 = Inr (test_temperature_range (df_obj w1), w2)" ..
  from test_temperature_range_io_result [OF 2] k1
  have k2: "df_obj w2 = df_obj w" "stdout_encoding w2 = Utf8" by simp_all
  from test_humidity_range_io_utf8 [OF k2(2)] obtain w3 where
    3: "test_humidity_range_io w2 = Inr (test_humidity_range (df_obj w2), w3)" ..
  from test_humidity_range_io_result [OF 3] k2
  have k3: "df_obj w3 = df_obj w" "stdout_encoding w3 = Utf8" by simp_all
  from test_duplicates_io_utf8 [OF k3(2)] obtain w4 where
    4: "test_duplicates_io w3 = Inr (test_duplicates (df_obj w3), w4)" ..
  from test_duplicates_io_result [OF 4] k3
  have k4: "df_obj w4 = df_obj w" "stdout_encoding w4 = Utf8" by simp_all
  from test_outliers_io_utf8 [OF k4(2)] obtain w5 where
    5: "test_outliers_io w4 = Inr (test_outliers (df_obj w4), w5)" ..
  have "run_rules_io w = Inr (results (run_rules (df_obj w)), w5)"
    unfolding run_rules_io_def
    by (simp add: and_then_def 1 2 3 4 5 k1 k2 k3 k4 results_run_rules)
  then show ?thesis ..
qed

lemma generate_report_io_utf8:
  assumes "stdout_encoding w = Utf8" and "generate_report rs = Inr rep"
  shows "\<exists>w'. generate_report_io rs w = Inr (rep, w')"
  using assms by (simp add: generate_report_io_def print_all_utf8 and_then_def del: print_all.simps)

lemma run_checks_io_utf8:
  assumes "stdout_encoding w = Utf8"
  shows "\<exists>rep w'. run_checks_io w = Inr (rep, w') \<and> main_on (df_obj w) = Inr rep"
proof -
  from run_rules_io_utf8 [OF assms] obtain w1 where
    r: "run_rules_io w = Inr (results (run_rules (df_obj w)), w1)" ..
  from run_rules_io_result [OF r] assms have enc: "stdout_encoding w1 = Utf8" by simp
  from main_on_returns obtain rep where rep: "main_on (df_obj w) = Inr rep" ..
  then have "generate_report (results (run_rules (df_obj w))) = Inr rep"
    by (simp add: main_on_def)
  from generate_report_io_utf8 [OF enc this] obtain w2 where
    "generate_report_io (results (run_rules (df_obj w))) w1 = Inr (rep, w2)" ..
  then have "run_checks_io w = Inr (rep, w2)"
    by (simp add: run_checks_io_def r and_then_def)
  with rep show ?thesis by blast
qed

lemma DataFrame_sample: "DataFrame sensor_data = Inr sample_frame"
  using load_data_sample by (simp add: load_data_def)

lemma load_data_io_utf8:
  "\<exists>w'. load_data_io \<lparr> df_obj = [], stdout_encoding = Utf8, stdout = [] \<rparr> = Inr (sample_frame, w')
     \<and> df_obj w' = sample_frame \<and> stdout_encoding w' = Utf8"
  by (simp add: load_data_io_def DataFrame_sample print_all_utf8 and_then_def del: print_all.simps)

lemma main_io_utf8: "\<exists>rep w'. main_io Utf8 = Inr (rep, w') \<and> main = Inr rep"
proof -
  from load_data_io_utf8 obtain w1 where
    l: "load_data_io \<lparr> df_obj = [], stdout_encoding = Utf8, stdout = [] \<rparr> = Inr (sample_frame, w1)"
    and k: "df_obj w1 = sample_frame" "stdout_encoding w1 = Utf8" by blast
  from run_checks_io_utf8 [OF k(2)] k(1) obtain rep w2 where
    c: "run_checks_io w1 = Inr (rep, w2)" and m: "main_on sample_frame = Inr rep" by auto
  have "main_io Utf8 = Inr (rep, w2)"
    by (simp add: main_io_def l and_then_def c)
  moreover have "main = Inr rep" by (simp add: main_def load_data_sample m)
  ultimately show ?thesis by blast
qed

lemma main_io_no_pictographs:
  "enc \<noteq> Utf8 \<Longrightarrow> main_io enc = Inl UnicodeEncodeError"
  by (cases enc)
    (simp_all add: main_io_def load_data_io_def DataFrame_sample print_def and_then_def)

text \<open>
  C9, as amended. On a standard output whose encoding can represent every character the
  program prints (UTF-8), running the program ends normally, with exit status 0, whatever
  the rules find: from any frame each of the five rules returns its boolean, false for a
  failed check, and no exception leaves the rules or the report.
\<close>

theorem main_io_exit_status:
  "exit_status (main_io Utf8) = 0 \<and>
   (stdout_encoding w = Utf8 \<longrightarrow>
      exit_status (run_checks_io w) = 0 \<and>
      (\<exists>w'. test_missing_values_io w = Inr (test_missing_values (df_obj w), w')) \<and>
      (\<exists>w'. test_temperature_range_io w = Inr (test_temperature_range (df_obj w), w')) \<and>
      (\<exists>w'. test_humidity_range_io w = Inr (test_humidity_range (df_obj w), w')) \<and>
      (\<exists>w'. test_duplicates_io w = Inr (test_duplicates (df_obj w), w')) \<and>
      (\<exists>w'. test_outliers_io w = Inr (test_outliers (df_obj w), w')))"
proof (intro conjI impI)
  from main_io_utf8 obtain rep w' where "main_io Utf8 = Inr (rep, w')" by blast
  then show "exit_status (main_io Utf8) = 0" by (simp add: exit_status_def)
next
  assume enc: "stdout_encoding w = Utf8"
  from run_checks_io_utf8 [OF enc] obtain rep w' where "run_checks_io w = Inr (rep, w')"
    by blast
  then show "exit_status (run_checks_io w) = 0" by (simp add: exit_status_def)
qed (erule test_missing_values_io_utf8 test_temperature_range_io_utf8
      test_humidity_range_io_utf8 test_duplicates_io_utf8 test_outliers_io_utf8)+

theorem main_io_exit_status_counterexample:
  "main_io Ascii = Inl UnicodeEncodeError \<and> exit_status (main_io Ascii) = 1 \<and>
   exit_status (main_io Latin1) = 1"
  by (simp add: main_io_no_pictographs exit_status_def)

theorem main_io_exit_status_witness:
  "exit_status (main_io Utf8) = 0 \<and>
   exit_status (run_checks_io \<lparr> df_obj = sample_frame, stdout_encoding = Utf8, stdout = [] \<rparr>) = 0 \<and>
   (\<exists>w'. test_missing_values_io \<lparr> df_obj = sample_frame, stdout_encoding = Utf8, stdout = [] \<rparr>
           = Inr (False, w')) \<and>
   (\<exists>w'. test_duplicates_io \<lparr> df_obj = sample_frame, stdout_encoding = Utf8, stdout = [] \<rparr>
           = Inr (True, w'))"
proof -
  have r: "results (run_rules sample_frame) =
     [test_missing_values sample_frame, test_temperature_range sample_frame,
      test_humidity_range sample_frame, test_duplicates sample_frame,
      test_outliers sample_frame]"
    by (rule results_run_rules)
  with sample_results have "test_missing_values sample_frame = False"
    "test_duplicates sample_frame = True" by simp_all
  with main_io_exit_status
    [of "\<lparr> df_obj = sample_frame, stdout_encoding = Utf8, stdout = [] \<rparr>"]
  show ?thesis by simp
qed


text \<open>
  C10. The rule set is deterministic and read-only: no rule changes the frame object it
  is given, so after the five rules have run the frame is as it was, and running the
  five rules a second time, on the state the first run has left, gives the same list of
  booleans. On a UTF-8 standard output both runs return.
\<close>

theorem run_rules_io_read_only:
  "(run_rules_io w = Inr (rs, w') \<longrightarrow>
      df_obj w' = df_obj w \<and>
      (\<forall>rs' w''. run_rules_io w' = Inr (rs', w'') \<longrightarrow> rs' = rs \<and> df_obj w'' = df_obj w)) \<and>
   (stdout_encoding w = Utf8 \<longrightarrow>
      (\<exists>rs w' w''. run_rules_io w = Inr (rs, w') \<and> run_rules_io w' = Inr (rs, w''))) \<and>
   (test_missing_values_io w = Inr (b1, w1) \<longrightarrow> df_obj w1 = df_obj w) \<and>
   (test_temperature_range_io w = Inr (b2, w2) \<longrightarrow> df_obj w2 = df_obj w) \<and>
   (test_humidity_range_io w = Inr (b3, w3) \<longrightarrow> df_obj w3 = df_obj w) \<and>
   (test_duplicates_io w = Inr (b4, w4) \<longrightarrow> df_obj w4 = df_obj w) \<and>
   (test_outliers_io w = Inr (b5, w5) \<longrightarrow> df_obj w5 = df_obj w)"
proof -
  have twice: "df_obj w' = df_obj w \<and>
      (\<forall>rs' w''. run_rules_io w' = Inr (rs', w'') \<longrightarrow> rs' = rs \<and> df_obj w'' = df_obj w)"
    if first: "run_rules_io w = Inr (rs, w')"
  proof (intro conjI allI impI)
    from run_rules_io_result [OF first] show same: "df_obj w' = df_obj w" by simp
    fix rs' w''
    assume second: "run_rules_io w' = Inr (rs', w'')"
    from run_rules_io_result [OF second] run_rules_io_result [OF first]
    show "rs' = rs" "df_obj w'' = df_obj w" by simp_all
  qed
  have returns: "\<exists>rs w' w''. run_rules_io w = Inr (rs, w') \<and> run_rules_io w' = Inr (rs, w'')"
    if enc: "stdout_encoding w = Utf8"
  proof -
    from run_rules_io_utf8 [OF enc] obtain w' where
      first: "run_rules_io w = Inr (results (run_rules (df_obj w)), w')" ..
    from run_rules_io_result [OF first] enc
    have k: "df_obj w' = df_obj w" "stdout_encoding w' = Utf8" by simp_all
    from run_rules_io_utf8 [OF k(2)] k(1) obtain w'' where
      "run_rules_io w' = Inr (results (run_rules (df_obj w)), w'')" by auto
    with first show ?thesis by blast
  qed
  from twice returns test_missing_values_io_result [of w b1 w1]
    test_temperature_range_io_result [of w b2 w2] test_humidity_range_io_result [of w b3 w3]
    test_duplicates_io_result [of w b4 w4] test_outliers_io_result [of w b5 w5]
  show ?thesis by blast
qed

theorem run_rules_io_read_only_witness:
  "\<exists>w' w''.
     run_rules_io \<lparr> df_obj = sample_frame, stdout_encoding = Utf8, stdout = [] \<rparr> =
       Inr ([False, False, True, True, False], w') \<and>
     run_rules_io w' = Inr ([False, False, True, True, False], w'') \<and>
     df_obj w' = sample_frame \<and> df_obj w'' = sample_frame"
proof -
  let ?w = "\<lparr> df_obj = sample_frame, stdout_encoding = Utf8, stdout = [] \<rparr>"
  have enc: "stdout_encoding ?w = Utf8" by simp
  from run_rules_io_read_only [of ?w] enc obtain rs w' w'' where
    first: "run_rules_io ?w = Inr (rs, w')" and second: "run_rules_io w' = Inr (rs, w'')"
    by blast
  from run_rules_io_read_only [of ?w rs w'] first second
  have frames: "df_obj w' = sample_frame" "df_obj w'' = sample_frame" by auto
  from run_rules_io_result [OF first] have "rs = [False, False, True, True, False]"
    by (simp add: sample_results)
  with first second frames show ?thesis by blast
qed

end
